theory Spec2Isabelle
  imports Main
begin

section \<open>Python values and exceptions\<close>

text \<open>
  The values a Django settings dictionary holds for the keys read by the backend, and the
  opaque objects (files) handed through the debug cursor wrapper.
\<close>

datatype pyval = PyNone | PyBool bool | PyInt int | PyStr string | PyObj nat

text \<open>Python truthiness, as tested by \<^verbatim>\<open>if settings_dict['DATABASE']:\<close>.\<close>

fun truthy :: "pyval \<Rightarrow> bool" where
  "truthy PyNone = False"
| "truthy (PyBool b) = b"
| "truthy (PyInt i) = (i \<noteq> 0)"
| "truthy (PyStr s) = (s \<noteq> [])"
| "truthy (PyObj _) = True"

text \<open>
  The exceptions that occur in \<^verbatim>\<open>base.py\<close>. \<open>Database_Error\<close> stands for any instance of
  the driver's \<^verbatim>\<open>Database.Error\<close> hierarchy, \<open>WrappedDatabaseError\<close> for the host framework's
  own database-error category (imported in the source under that name), and
  \<open>OtherException\<close> for every exception outside both.
\<close>

datatype exn =
    ImproperlyConfigured string
  | KeyError string
  | AttributeError string
  | SynchronousOnlyOperation
  | Database_Error string
  | WrappedDatabaseError string
  | OtherException string

fun is_Database_Error :: "exn \<Rightarrow> bool" where
  "is_Database_Error (Database_Error _) = True"
| "is_Database_Error _ = False"

section \<open>Connection parameters\<close>

type_synonym settings = "string \<rightharpoonup> pyval"
type_synonym conn_params = "string \<rightharpoonup> pyval"

text \<open>Sequencing of statements that may raise: the first exception ends the function.\<close>

definition bind_exn :: "exn + 'a \<Rightarrow> ('a \<Rightarrow> exn + 'b) \<Rightarrow> exn + 'b" where
  "bind_exn m f = (case m of Inl e \<Rightarrow> Inl e | Inr x \<Rightarrow> f x)"

text \<open>
  One of the seven blocks of \<^verbatim>\<open>get_connection_params\<close>:
  \<^verbatim>\<open>
    if settings_dict[KEY]:
        conn_params[param] = settings_dict[KEY]
    else:
        raise ImproperlyConfigured(msg)
  \<close>
  Subscripting a dictionary with a key it does not hold raises \<^verbatim>\<open>KeyError\<close>.
\<close>

definition require_setting ::
  "settings \<Rightarrow> string \<Rightarrow> string \<Rightarrow> string \<Rightarrow> conn_params \<Rightarrow> exn + conn_params" where
  "require_setting settings_dict key param msg conn_params =
     (case settings_dict key of
        None \<Rightarrow> Inl (KeyError key)
      | Some v \<Rightarrow>
          if truthy v then Inr (conn_params(param \<mapsto> v))
          else Inl (ImproperlyConfigured msg))"

section \<open>The adapter, the driver and the world\<close>

text \<open>
  A connection object of the driver: its identity and its \<^verbatim>\<open>autocommit\<close> attribute.
\<close>

record connection_obj =
  handle :: nat
  autocommit :: bool

text \<open>
  The attributes of \<^verbatim>\<open>DatabaseWrapper\<close> (\<^verbatim>\<open>self\<close>) that the methods of \<^verbatim>\<open>base.py\<close> read:
  \<^verbatim>\<open>self.settings_dict\<close> and \<^verbatim>\<open>self.connection\<close>, which is \<^verbatim>\<open>None\<close> until a connection is open.
\<close>

record wrapper =
  settings_dict :: settings
  connection :: "connection_obj option"

definition get_connection_params :: "wrapper \<Rightarrow> exn + conn_params" where
  "get_connection_params self =
     (let settings_dict = settings_dict self in
     bind_exn (require_setting settings_dict ''DATABASE'' ''database''
                 ''Please provide a username for snowflake!'' Map.empty) (\<lambda>conn_params.
     bind_exn (require_setting settings_dict ''USER'' ''user''
                 ''Please provide a username for snowflake!'' conn_params) (\<lambda>conn_params.
     bind_exn (require_setting settings_dict ''PASSWORD'' ''password''
                 ''Please provide a password for snowflake!'' conn_params) (\<lambda>conn_params.
     bind_exn (require_setting settings_dict ''ACCOUNT'' ''account''
                 ''Please provide an account for snowflake!'' conn_params) (\<lambda>conn_params.
     bind_exn (require_setting settings_dict ''WAREHOUSE'' ''warehouse''
                 ''Please provide a warehouse for snowflake!'' conn_params) (\<lambda>conn_params.
     bind_exn (require_setting settings_dict ''ROLE'' ''role''
                 ''Please provide a role for snowflake!'' conn_params) (\<lambda>conn_params.
     bind_exn (require_setting settings_dict ''SCHEMA'' ''schema''
                 ''Please provide a schema for snowflake!'' conn_params) (\<lambda>conn_params.
     Inr conn_params))))))))"

text \<open>
  Every call the adapter makes on the driver, and every entry and exit of the host
  framework's debug-logging scope, is recorded in a trace.
\<close>

datatype event =
    Connect conn_params
  | OpenCursor nat "pyval list" "(string \<times> pyval) list"
  | CursorExit nat "exn option"
  | Execute nat string
  | AssignAutocommit nat bool
  | DebugEnter string
  | DebugExit string
  | CopyExpert nat string pyval "pyval list"
  | CopyTo nat pyval string "pyval list" "(string \<times> pyval) list"

text \<open>
  The driver (\<^verbatim>\<open>snowflake.connector\<close>, imported as \<^verbatim>\<open>Database\<close>) is not part of the
  repository: it is a parameter. Each operation acts on a driver state of any type \<open>'d\<close>
  and either returns or raises.
  \<^item> \<open>drv_connect\<close>: \<^verbatim>\<open>Database.connect(**conn_params)\<close>;
  \<^item> \<open>drv_cursor\<close>: \<^verbatim>\<open>connection.cursor(*args, **kwargs)\<close>, returning the cursor's identity;
  \<^item> \<open>drv_cursor_exit\<close>: the cursor's \<^verbatim>\<open>__exit__\<close>, given the exception in flight if any;
    its result tells whether that exception is suppressed (\<^verbatim>\<open>__enter__\<close> returns the cursor);
  \<^item> \<open>drv_execute\<close>: \<^verbatim>\<open>cursor.execute(sql)\<close>;
  \<^item> \<open>drv_set_autocommit\<close>: what assigning \<^verbatim>\<open>connection.autocommit\<close> does inside the driver;
  \<^item> \<open>drv_copy_expert\<close>, \<open>drv_copy_to\<close>: the cursor operations of those names.
\<close>

record 'd driver =
  drv_connect :: "conn_params \<Rightarrow> 'd \<Rightarrow> (exn + connection_obj) \<times> 'd"
  drv_cursor :: "nat \<Rightarrow> pyval list \<Rightarrow> (string \<times> pyval) list \<Rightarrow> 'd \<Rightarrow> (exn + nat) \<times> 'd"
  drv_cursor_exit :: "nat \<Rightarrow> exn option \<Rightarrow> 'd \<Rightarrow> (exn + bool) \<times> 'd"
  drv_execute :: "nat \<Rightarrow> string \<Rightarrow> 'd \<Rightarrow> (exn + unit) \<times> 'd"
  drv_set_autocommit :: "nat \<Rightarrow> bool \<Rightarrow> 'd \<Rightarrow> (exn + unit) \<times> 'd"
  drv_copy_expert :: "nat \<Rightarrow> string \<Rightarrow> pyval \<Rightarrow> pyval list \<Rightarrow> 'd \<Rightarrow> (exn + pyval) \<times> 'd"
  drv_copy_to ::
    "nat \<Rightarrow> pyval \<Rightarrow> string \<Rightarrow> pyval list \<Rightarrow> (string \<times> pyval) list \<Rightarrow> 'd \<Rightarrow> (exn + pyval) \<times> 'd"

text \<open>
  The world outside the adapter: the driver's state, the trace, and whether the calling
  thread has a running event loop (with \<^verbatim>\<open>DJANGO_ALLOW_ASYNC_UNSAFE\<close> unset).
\<close>

record 'd world =
  driver_state :: 'd
  trace :: "event list"
  running_event_loop :: bool

text \<open>A call on the driver: the operation runs on the driver state and the call is recorded.\<close>

definition invoke :: "event \<Rightarrow> ('d \<Rightarrow> 'a \<times> 'd) \<Rightarrow> 'd world \<Rightarrow> 'a \<times> 'd world" where
  "invoke ev operation s =
     (case operation (driver_state s) of
        (r, d) \<Rightarrow> (r, s\<lparr>driver_state := d, trace := trace s @ [ev]\<rparr>))"

text \<open>
  Modelled from the spec: the host framework's \<^verbatim>\<open>async_unsafe\<close> decorator, which is not in
  the repository. Section 5: opening a connection and creating a cursor
  ``explicitly forbid execution from single-threaded cooperative (event-loop-style)
  contexts''; there the decorated function is not entered.
\<close>

definition async_unsafe ::
  "('d world \<Rightarrow> (exn + 'a) \<times> 'd world) \<Rightarrow> 'd world \<Rightarrow> (exn + 'a) \<times> 'd world" where
  "async_unsafe func s =
     (if running_event_loop s then (Inl SynchronousOnlyOperation, s) else func s)"

definition get_new_connection ::
  "'d driver \<Rightarrow> wrapper \<Rightarrow> conn_params \<Rightarrow> 'd world \<Rightarrow> (exn + connection_obj) \<times> 'd world" where
  "get_new_connection Database self conn_params =
     async_unsafe (invoke (Connect conn_params) (drv_connect Database conn_params))"

text \<open>
  Modelled from the spec: the host framework's opening sequence, which is not in the
  repository. Section 4.2: the opener is ``given a validated parameter set''; section 4.6:
  the lifecycle is ``open, (validate), (use)*, close''. Parameter resolution runs first and
  the connection is opened from its result.
\<close>

definition open_connection ::
  "'d driver \<Rightarrow> wrapper \<Rightarrow> 'd world \<Rightarrow> (exn + wrapper) \<times> 'd world" where
  "open_connection Database self s =
     (case get_connection_params self of
        Inl e \<Rightarrow> (Inl e, s)
      | Inr conn_params \<Rightarrow>
          (case get_new_connection Database self conn_params s of
             (Inl e, s') \<Rightarrow> (Inl e, s')
           | (Inr c, s') \<Rightarrow> (Inr (self\<lparr>connection := Some c\<rparr>), s')))"

text \<open>
  \<^verbatim>\<open>create_cursor(self, name=None)\<close>. Reading an attribute of \<^verbatim>\<open>None\<close> raises
  \<^verbatim>\<open>AttributeError\<close>.
\<close>

definition create_cursor ::
  "'d driver \<Rightarrow> wrapper \<Rightarrow> pyval \<Rightarrow> 'd world \<Rightarrow> (exn + nat) \<times> 'd world" where
  "create_cursor Database self name =
     async_unsafe (\<lambda>s.
       case connection self of
         None \<Rightarrow> (Inl (AttributeError ''cursor''), s)
       | Some c \<Rightarrow> invoke (OpenCursor (handle c) [] []) (drv_cursor Database (handle c) [] []) s)"

text \<open>
  Modelled from the spec: the host framework's \<^verbatim>\<open>wrap_database_errors\<close> context manager,
  which is not in the repository. Section 4.4: ``any driver-level failure during the toggle
  is translated into the host framework's generic database-error category rather than
  leaking a driver-specific exception type''; section 7: ``preserving the failure but
  normalizing its type''. Exceptions that are not driver errors pass through.
\<close>

fun translate_driver_error :: "exn \<Rightarrow> exn" where
  "translate_driver_error (Database_Error args) = WrappedDatabaseError args"
| "translate_driver_error e = e"

definition wrap_database_errors ::
  "('s \<Rightarrow> (exn + 'a) \<times> 's) \<Rightarrow> 's \<Rightarrow> (exn + 'a) \<times> 's" where
  "wrap_database_errors body s =
     (case body s of
        (Inl e, s') \<Rightarrow> (Inl (translate_driver_error e), s')
      | (Inr x, s') \<Rightarrow> (Inr x, s'))"

text \<open>
  \<^verbatim>\<open>_set_autocommit(self, autocommit)\<close>. The assignment
  \<^verbatim>\<open>self.connection.autocommit = autocommit\<close> either raises inside the driver or leaves the
  attribute holding the assigned value; the method returns nothing, so the model returns
  the adapter with its connection object updated.
\<close>

definition set_autocommit ::
  "'d driver \<Rightarrow> wrapper \<Rightarrow> bool \<Rightarrow> 'd world \<Rightarrow> (exn + wrapper) \<times> 'd world" where
  "set_autocommit Database self autocommit_arg =
     wrap_database_errors (\<lambda>s.
       case connection self of
         None \<Rightarrow> (Inl (AttributeError ''autocommit''), s)
       | Some c \<Rightarrow>
           (case invoke (AssignAutocommit (handle c) autocommit_arg)
                   (drv_set_autocommit Database (handle c) autocommit_arg) s of
              (Inl e, s') \<Rightarrow> (Inl e, s')
            | (Inr _, s') \<Rightarrow>
                (Inr (self\<lparr>connection := Some (c\<lparr>autocommit := autocommit_arg\<rparr>)\<rparr>), s')))"

text \<open>
  The body of the \<^verbatim>\<open>try\<close> in \<^verbatim>\<open>is_usable\<close>:
  \<^verbatim>\<open>
    with self.connection.cursor() as cursor:
        cursor.execute('SELECT current_version()')
  \<close>
  The \<^verbatim>\<open>with\<close> statement calls the cursor's \<^verbatim>\<open>__exit__\<close> once the cursor is open, whether
  the statement returned or raised; an exception raised by \<^verbatim>\<open>__exit__\<close> replaces the one in
  flight, and a true result of \<^verbatim>\<open>__exit__\<close> suppresses it.
\<close>

definition is_usable_probe :: "'d driver \<Rightarrow> wrapper \<Rightarrow> 'd world \<Rightarrow> (exn + unit) \<times> 'd world" where
  "is_usable_probe Database self s =
     (case connection self of
        None \<Rightarrow> (Inl (AttributeError ''cursor''), s)
      | Some c \<Rightarrow>
          (case invoke (OpenCursor (handle c) [] []) (drv_cursor Database (handle c) [] []) s of
             (Inl e, s1) \<Rightarrow> (Inl e, s1)
           | (Inr cursor, s1) \<Rightarrow>
               (case invoke (Execute cursor ''SELECT current_version()'')
                       (drv_execute Database cursor ''SELECT current_version()'') s1 of
                  (Inr _, s2) \<Rightarrow>
                    (case invoke (CursorExit cursor None)
                            (drv_cursor_exit Database cursor None) s2 of
                       (Inl e', s3) \<Rightarrow> (Inl e', s3)
                     | (Inr _, s3) \<Rightarrow> (Inr (), s3))
                | (Inl e, s2) \<Rightarrow>
                    (case invoke (CursorExit cursor (Some e))
                            (drv_cursor_exit Database cursor (Some e)) s2 of
                       (Inl e', s3) \<Rightarrow> (Inl e', s3)
                     | (Inr suppress, s3) \<Rightarrow>
                         if suppress then (Inr (), s3) else (Inl e, s3)))))"

text \<open>
  \<^verbatim>\<open>
    try: ...
    except Database.Error: return False
    else: return True
  \<close>
\<close>

definition is_usable :: "'d driver \<Rightarrow> wrapper \<Rightarrow> 'd world \<Rightarrow> (exn + bool) \<times> 'd world" where
  "is_usable Database self s =
     (case is_usable_probe Database self s of
        (Inl e, s') \<Rightarrow> if is_Database_Error e then (Inr False, s') else (Inl e, s')
      | (Inr _, s') \<Rightarrow> (Inr True, s'))"

section \<open>The debug cursor wrapper\<close>

text \<open>\<^verbatim>\<open>CursorDebugWrapper\<close>: \<^verbatim>\<open>self.cursor\<close> is the wrapped cursor.\<close>

record cursor_debug_wrapper =
  cursor :: nat

text \<open>
  Modelled from the spec: the host framework's \<^verbatim>\<open>debug_sql\<close> scope, which is not in the
  repository. Section 4.6: ``enter a scoped debug-logging context carrying the SQL or a
  synthesized description, execute the underlying driver operation with all original
  arguments, then exit the scope (guaranteed exit even on failure)''. The scope neither
  raises nor suppresses: the outcome of the body is the outcome of the \<^verbatim>\<open>with\<close> statement.
\<close>

definition debug_sql ::
  "string \<Rightarrow> ('d world \<Rightarrow> 'a \<times> 'd world) \<Rightarrow> 'd world \<Rightarrow> 'a \<times> 'd world" where
  "debug_sql sql body s =
     (case body (s\<lparr>trace := trace s @ [DebugEnter sql]\<rparr>) of
        (r, s') \<Rightarrow> (r, s'\<lparr>trace := trace s' @ [DebugExit sql]\<rparr>))"

definition copy_expert ::
  "'d driver \<Rightarrow> cursor_debug_wrapper \<Rightarrow> string \<Rightarrow> pyval \<Rightarrow> pyval list \<Rightarrow> 'd world
     \<Rightarrow> (exn + pyval) \<times> 'd world" where
  "copy_expert Database self sql file args =
     debug_sql sql
       (invoke (CopyExpert (cursor self) sql file args)
          (drv_copy_expert Database (cursor self) sql file args))"

text \<open>
  The table is a table name, a string, for which \<^verbatim>\<open>'COPY %s TO STDOUT' % table\<close> puts
  the name in place of \<^verbatim>\<open>%s\<close>.
\<close>

definition copy_to ::
  "'d driver \<Rightarrow> cursor_debug_wrapper \<Rightarrow> pyval \<Rightarrow> string \<Rightarrow> pyval list \<Rightarrow> (string \<times> pyval) list
     \<Rightarrow> 'd world \<Rightarrow> (exn + pyval) \<times> 'd world" where
  "copy_to Database self file table args kwargs =
     debug_sql (''COPY '' @ table @ '' TO STDOUT'')
       (invoke (CopyTo (cursor self) file table args kwargs)
          (drv_copy_to Database (cursor self) file table args kwargs))"

section \<open>Vocabulary for stating properties of the validator\<close>

text \<open>
  The seven blocks in source order, as (settings key, driver parameter, message of the
  \<^verbatim>\<open>else\<close> branch).
\<close>

definition required_settings :: "(string \<times> string \<times> string) list" where
  "required_settings =
     [(''DATABASE'', ''database'', ''Please provide a username for snowflake!''),
      (''USER'', ''user'', ''Please provide a username for snowflake!''),
      (''PASSWORD'', ''password'', ''Please provide a password for snowflake!''),
      (''ACCOUNT'', ''account'', ''Please provide an account for snowflake!''),
      (''WAREHOUSE'', ''warehouse'', ''Please provide a warehouse for snowflake!''),
      (''ROLE'', ''role'', ''Please provide a role for snowflake!''),
      (''SCHEMA'', ''schema'', ''Please provide a schema for snowflake!'')]"

definition required_keys :: "string list" where
  "required_keys = map fst required_settings"

text \<open>The three states of a key in a configuration record.\<close>

definition absent :: "settings \<Rightarrow> string \<Rightarrow> bool" where
  "absent cfg key = (cfg key = None)"

definition present_empty :: "settings \<Rightarrow> string \<Rightarrow> bool" where
  "present_empty cfg key =
     (case cfg key of None \<Rightarrow> False | Some v \<Rightarrow> \<not> truthy v)"

definition non_empty :: "settings \<Rightarrow> string \<Rightarrow> bool" where
  "non_empty cfg key =
     (case cfg key of None \<Rightarrow> False | Some v \<Rightarrow> truthy v)"

text \<open>The blocks run one after the other over a table of (key, parameter, message).\<close>

fun run_blocks ::
  "settings \<Rightarrow> (string \<times> string \<times> string) list \<Rightarrow> conn_params \<Rightarrow> exn + conn_params" where
  "run_blocks cfg [] conn_params = Inr conn_params"
| "run_blocks cfg ((key, param, msg) # rest) conn_params =
     bind_exn (require_setting cfg key param msg conn_params)
       (run_blocks cfg rest)"

text \<open>
  The first block, in source order, whose key is absent or holds a falsy value.
\<close>

definition first_unusable :: "settings \<Rightarrow> (string \<times> string \<times> string) option" where
  "first_unusable cfg = find (\<lambda>b. \<not> non_empty cfg (fst b)) required_settings"

section \<open>Concrete inputs\<close>

text \<open>
  A driver whose operations have fixed outcomes and count the calls made on it, a world
  with an empty trace outside any event loop, and the fully populated configuration
  record of the specification's example.
\<close>

definition scripted_driver ::
  "(exn + unit) \<Rightarrow> (exn + unit) \<Rightarrow> (exn + pyval) \<Rightarrow> nat driver" where
  "scripted_driver execute_outcome autocommit_outcome copy_outcome =
     \<lparr>drv_connect = (\<lambda>conn_params d. (Inr \<lparr>handle = d, autocommit = False\<rparr>, Suc d)),
      drv_cursor = (\<lambda>c args kwargs d. (Inr d, Suc d)),
      drv_cursor_exit = (\<lambda>cur e d. (Inr False, Suc d)),
      drv_execute = (\<lambda>cur sql d. (execute_outcome, Suc d)),
      drv_set_autocommit = (\<lambda>c b d. (autocommit_outcome, Suc d)),
      drv_copy_expert = (\<lambda>cur sql file args d. (copy_outcome, Suc d)),
      drv_copy_to = (\<lambda>cur file table args kwargs d. (copy_outcome, Suc d))\<rparr>"

definition fresh_world :: "nat world" where
  "fresh_world = \<lparr>driver_state = 0, trace = [], running_event_loop = False\<rparr>"

definition example_settings :: settings where
  "example_settings =
     [''DATABASE'' \<mapsto> PyStr ''D'', ''USER'' \<mapsto> PyStr ''U'', ''PASSWORD'' \<mapsto> PyStr ''P'',
      ''ACCOUNT'' \<mapsto> PyStr ''A'', ''WAREHOUSE'' \<mapsto> PyStr ''W'', ''ROLE'' \<mapsto> PyStr ''R'',
      ''SCHEMA'' \<mapsto> PyStr ''S'']"

text \<open>An adapter whose connection is open.\<close>

definition live_wrapper :: wrapper where
  "live_wrapper =
     \<lparr>settings_dict = example_settings, connection = Some \<lparr>handle = 7, autocommit = False\<rparr>\<rparr>"

section \<open>Properties of the validator\<close>

lemma get_connection_params_run_blocks:
  "get_connection_params self = run_blocks (settings_dict self) required_settings Map.empty"
  by (simp add: get_connection_params_def required_settings_def bind_exn_def Let_def
           split: sum.splits)

lemma require_setting_non_empty:
  "non_empty cfg key \<Longrightarrow>
     \<exists>v. cfg key = Some v \<and> require_setting cfg key param msg cp = Inr (cp(param \<mapsto> v))"
  by (auto simp: non_empty_def require_setting_def split: option.splits)

lemma require_setting_unusable:
  "\<not> non_empty cfg key \<Longrightarrow>
     require_setting cfg key param msg cp =
       Inl (if absent cfg key then KeyError key else ImproperlyConfigured msg)"
  by (auto simp: non_empty_def absent_def require_setting_def split: option.splits)

lemma run_blocks_find:
  "find (\<lambda>b. \<not> non_empty cfg (fst b)) tbl = Some (key, param, msg) \<Longrightarrow>
     run_blocks cfg tbl cp =
       Inl (if absent cfg key then KeyError key else ImproperlyConfigured msg)"
proof (induction tbl arbitrary: cp)
  case Nil
  then show ?case by simp
next
  case (Cons b tbl)
  obtain k p m where b: "b = (k, p, m)" by (cases b) auto
  show ?case
  proof (cases "non_empty cfg k")
    case True
    then obtain v where "require_setting cfg k p m cp = Inr (cp(p \<mapsto> v))"
      using require_setting_non_empty by blast
    moreover have "find (\<lambda>b. \<not> non_empty cfg (fst b)) tbl = Some (key, param, msg)"
      using Cons.prems True by (simp add: b)
    ultimately show ?thesis
      using Cons.IH by (simp add: b bind_exn_def)
  next
    case False
    then have "(k, p, m) = (key, param, msg)"
      using Cons.prems by (simp add: b)
    then show ?thesis
      using False by (simp add: b bind_exn_def require_setting_unusable)
  qed
qed

lemma run_blocks_prefix:
  assumes "\<forall>b\<in>set pre. non_empty cfg (fst b)" and "\<not> non_empty cfg key"
  shows "run_blocks cfg (pre @ (key, param, msg) # post) cp =
           Inl (if absent cfg key then KeyError key else ImproperlyConfigured msg)"
proof -
  have "find (\<lambda>b. \<not> non_empty cfg (fst b)) (pre @ (key, param, msg) # post)
          = Some (key, param, msg)"
    using assms by (induction pre) auto
  then show ?thesis by (rule run_blocks_find)
qed

lemma run_blocks_ImproperlyConfigured:
  "run_blocks cfg tbl cp = Inl (ImproperlyConfigured m) \<Longrightarrow>
     \<exists>b\<in>set tbl. present_empty cfg (fst b)"
proof (induction tbl arbitrary: cp)
  case Nil
  then show ?case by simp
next
  case (Cons b tbl)
  obtain k p m' where b: "b = (k, p, m')" by (cases b) auto
  show ?case
  proof (cases "require_setting cfg k p m' cp")
    case (Inl e)
    then have "e = ImproperlyConfigured m"
      using Cons.prems by (simp add: b bind_exn_def)
    then have "present_empty cfg k"
      using Inl by (auto simp: require_setting_def present_empty_def split: option.splits if_splits)
    then show ?thesis by (simp add: b)
  next
    case (Inr cp')
    then have "run_blocks cfg tbl cp' = Inl (ImproperlyConfigured m)"
      using Cons.prems by (simp add: b bind_exn_def)
    then show ?thesis using Cons.IH by auto
  qed
qed

lemma states_exclusive:
  "non_empty cfg key \<longleftrightarrow> \<not> absent cfg key \<and> \<not> present_empty cfg key"
  by (auto simp: non_empty_def absent_def present_empty_def split: option.splits)

lemma first_unusable_exists:
  assumes "key \<in> set required_keys" and "present_empty cfg key"
  shows "\<exists>b. first_unusable cfg = Some b"
proof -
  have "\<not> non_empty cfg key"
    using assms(2) by (simp add: states_exclusive)
  then have "\<exists>b\<in>set required_settings. \<not> non_empty cfg (fst b)"
    using assms(1) by (auto simp: required_keys_def)
  then have "find (\<lambda>b. \<not> non_empty cfg (fst b)) required_settings \<noteq> None"
    unfolding find_None_iff by blast
  then show ?thesis by (auto simp: first_unusable_def)
qed

text \<open>
  C1 (amended). For every configuration record in which at least one of the seven
  required fields is present but empty, \<^verbatim>\<open>get_connection_params\<close> raises an error, and the
  opening sequence ends with that error in an unchanged world: the driver's connect
  operation is not invoked. The error is decided by the first required field, in
  validation order, that is absent or empty: \<^verbatim>\<open>ImproperlyConfigured\<close> when that field is
  present but empty, \<^verbatim>\<open>KeyError\<close> when it is absent.
\<close>

theorem empty_field_raises:
  assumes "key \<in> set required_keys" and "present_empty (settings_dict self) key"
  shows "\<exists>k param msg.
           first_unusable (settings_dict self) = Some (k, param, msg) \<and>
           get_connection_params self =
             Inl (if absent (settings_dict self) k then KeyError k
                  else ImproperlyConfigured msg) \<and>
           open_connection Database self s =
             (Inl (if absent (settings_dict self) k then KeyError k
                   else ImproperlyConfigured msg), s)"
proof -
  obtain k param msg where first: "first_unusable (settings_dict self) = Some (k, param, msg)"
    using first_unusable_exists [OF assms] by (metis prod_cases3)
  then have raised: "get_connection_params self =
      Inl (if absent (settings_dict self) k then KeyError k else ImproperlyConfigured msg)"
    unfolding first_unusable_def get_connection_params_run_blocks by (rule run_blocks_find)
  then have "open_connection Database self s =
      (Inl (if absent (settings_dict self) k then KeyError k else ImproperlyConfigured msg), s)"
    by (simp add: open_connection_def)
  with first raised show ?thesis by blast
qed

text \<open>
  The specification's example: \<^verbatim>\<open>USER\<close> is empty and every other field is set.
\<close>

theorem empty_field_raises_witness:
  "get_connection_params
     \<lparr>settings_dict = example_settings(''USER'' \<mapsto> PyStr []), connection = None\<rparr>
     = Inl (ImproperlyConfigured ''Please provide a username for snowflake!'') \<and>
   open_connection (scripted_driver (Inr ()) (Inr ()) (Inr PyNone))
     \<lparr>settings_dict = example_settings(''USER'' \<mapsto> PyStr []), connection = None\<rparr> fresh_world
     = (Inl (ImproperlyConfigured ''Please provide a username for snowflake!''), fresh_world)"
proof -
  let ?self = "\<lparr>settings_dict = example_settings(''USER'' \<mapsto> PyStr []), connection = None\<rparr>"
  have key: "''USER'' \<in> set required_keys"
    by (simp add: required_keys_def required_settings_def)
  have empty: "present_empty (settings_dict ?self) ''USER''"
    by (simp add: present_empty_def)
  have first: "first_unusable (settings_dict ?self) =
      Some (''USER'', ''user'', ''Please provide a username for snowflake!'')"
    by (simp add: first_unusable_def required_settings_def non_empty_def example_settings_def)
  have present: "\<not> absent (settings_dict ?self) ''USER''"
    by (simp add: absent_def)
  show ?thesis
    using empty_field_raises [OF key empty,
        of "scripted_driver (Inr ()) (Inr ()) (Inr PyNone)" fresh_world]
      first present
    by auto
qed

text \<open>
  C1 as stated fails: with \<^verbatim>\<open>USER\<close> present but empty and \<^verbatim>\<open>DATABASE\<close> absent, the
  subscript \<^verbatim>\<open>settings_dict['DATABASE']\<close> raises \<^verbatim>\<open>KeyError\<close> before \<^verbatim>\<open>USER\<close> is read.
\<close>

theorem empty_field_counterexample:
  "present_empty [''USER'' \<mapsto> PyStr []] ''USER'' \<and>
   get_connection_params \<lparr>settings_dict = [''USER'' \<mapsto> PyStr []], connection = None\<rparr>
     = Inl (KeyError ''DATABASE'')"
  by (simp add: present_empty_def get_connection_params_def require_setting_def bind_exn_def)


text \<open>
  C2. The claim asks for a message per field that names the field. The block for
  \<^verbatim>\<open>DATABASE\<close> raises the message of the block for \<^verbatim>\<open>USER\<close>: a record whose only empty
  field is \<^verbatim>\<open>DATABASE\<close> and a record whose only empty field is \<^verbatim>\<open>USER\<close> raise the same
  error, which asks for a username.
\<close>

theorem database_message_names_username:
  "get_connection_params
     \<lparr>settings_dict = example_settings(''DATABASE'' \<mapsto> PyStr []), connection = None\<rparr>
     = Inl (ImproperlyConfigured ''Please provide a username for snowflake!'') \<and>
   get_connection_params
     \<lparr>settings_dict = example_settings(''USER'' \<mapsto> PyStr []), connection = None\<rparr>
     = Inl (ImproperlyConfigured ''Please provide a username for snowflake!'')"
  by (simp add: get_connection_params_def require_setting_def bind_exn_def
        example_settings_def)

text \<open>
  C3. For every configuration record in which all seven required fields are non-empty,
  \<^verbatim>\<open>get_connection_params\<close> returns a parameter set whose keys are exactly
  \<^verbatim>\<open>database\<close>, \<^verbatim>\<open>user\<close>, \<^verbatim>\<open>password\<close>, \<^verbatim>\<open>account\<close>, \<^verbatim>\<open>warehouse\<close>, \<^verbatim>\<open>role\<close>, \<^verbatim>\<open>schema\<close>, each
  mapped to the configured value unchanged.
\<close>

theorem all_non_empty_resolves:
  assumes "\<forall>key\<in>set required_keys. non_empty (settings_dict self) key"
  shows "\<exists>conn_params.
           get_connection_params self = Inr conn_params \<and>
           dom conn_params =
             {''database'', ''user'', ''password'', ''account'', ''warehouse'', ''role'',
              ''schema''} \<and>
           conn_params ''database'' = settings_dict self ''DATABASE'' \<and>
           conn_params ''user'' = settings_dict self ''USER'' \<and>
           conn_params ''password'' = settings_dict self ''PASSWORD'' \<and>
           conn_params ''account'' = settings_dict self ''ACCOUNT'' \<and>
           conn_params ''warehouse'' = settings_dict self ''WAREHOUSE'' \<and>
           conn_params ''role'' = settings_dict self ''ROLE'' \<and>
           conn_params ''schema'' = settings_dict self ''SCHEMA''"
proof -
  let ?cfg = "settings_dict self"
  have keys: "non_empty ?cfg ''DATABASE''" "non_empty ?cfg ''USER''"
    "non_empty ?cfg ''PASSWORD''" "non_empty ?cfg ''ACCOUNT''" "non_empty ?cfg ''WAREHOUSE''"
    "non_empty ?cfg ''ROLE''" "non_empty ?cfg ''SCHEMA''"
    using assms by (simp_all add: required_keys_def required_settings_def)
  obtain v1 where v1: "?cfg ''DATABASE'' = Some v1" "truthy v1"
    using keys(1) by (auto simp: non_empty_def split: option.splits)
  obtain v2 where v2: "?cfg ''USER'' = Some v2" "truthy v2"
    using keys(2) by (auto simp: non_empty_def split: option.splits)
  obtain v3 where v3: "?cfg ''PASSWORD'' = Some v3" "truthy v3"
    using keys(3) by (auto simp: non_empty_def split: option.splits)
  obtain v4 where v4: "?cfg ''ACCOUNT'' = Some v4" "truthy v4"
    using keys(4) by (auto simp: non_empty_def split: option.splits)
  obtain v5 where v5: "?cfg ''WAREHOUSE'' = Some v5" "truthy v5"
    using keys(5) by (auto simp: non_empty_def split: option.splits)
  obtain v6 where v6: "?cfg ''ROLE'' = Some v6" "truthy v6"
    using keys(6) by (auto simp: non_empty_def split: option.splits)
  obtain v7 where v7: "?cfg ''SCHEMA'' = Some v7" "truthy v7"
    using keys(7) by (auto simp: non_empty_def split: option.splits)
  have "get_connection_params self =
      Inr [''database'' \<mapsto> v1, ''user'' \<mapsto> v2, ''password'' \<mapsto> v3, ''account'' \<mapsto> v4,
           ''warehouse'' \<mapsto> v5, ''role'' \<mapsto> v6, ''schema'' \<mapsto> v7]"
    by (simp add: get_connection_params_def require_setting_def bind_exn_def Let_def
          v1 v2 v3 v4 v5 v6 v7)
  then show ?thesis
    using v1(1) v2(1) v3(1) v4(1) v5(1) v6(1) v7(1) by auto
qed

text \<open>The specification's example of a fully populated record.\<close>

theorem all_non_empty_resolves_witness:
  "get_connection_params \<lparr>settings_dict = example_settings, connection = None\<rparr> =
     Inr [''database'' \<mapsto> PyStr ''D'', ''user'' \<mapsto> PyStr ''U'', ''password'' \<mapsto> PyStr ''P'',
          ''account'' \<mapsto> PyStr ''A'', ''warehouse'' \<mapsto> PyStr ''W'', ''role'' \<mapsto> PyStr ''R'',
          ''schema'' \<mapsto> PyStr ''S'']"
proof -
  let ?self = "\<lparr>settings_dict = example_settings, connection = None\<rparr>"
  have full: "\<forall>key\<in>set required_keys. non_empty (settings_dict ?self) key"
    by (simp add: required_keys_def required_settings_def non_empty_def example_settings_def)
  obtain conn_params where r: "get_connection_params ?self = Inr conn_params"
    and d: "dom conn_params =
       {''database'', ''user'', ''password'', ''account'', ''warehouse'', ''role'', ''schema''}"
    and v: "conn_params ''database'' = settings_dict ?self ''DATABASE''"
       "conn_params ''user'' = settings_dict ?self ''USER''"
       "conn_params ''password'' = settings_dict ?self ''PASSWORD''"
       "conn_params ''account'' = settings_dict ?self ''ACCOUNT''"
       "conn_params ''warehouse'' = settings_dict ?self ''WAREHOUSE''"
       "conn_params ''role'' = settings_dict ?self ''ROLE''"
       "conn_params ''schema'' = settings_dict ?self ''SCHEMA''"
    using all_non_empty_resolves [OF full] by blast
  have "conn_params x =
      [''database'' \<mapsto> PyStr ''D'', ''user'' \<mapsto> PyStr ''U'', ''password'' \<mapsto> PyStr ''P'',
       ''account'' \<mapsto> PyStr ''A'', ''warehouse'' \<mapsto> PyStr ''W'', ''role'' \<mapsto> PyStr ''R'',
       ''schema'' \<mapsto> PyStr ''S''] x" for x
  proof (cases "x \<in> dom conn_params")
    case True
    then show ?thesis
      using v unfolding d by (auto simp: example_settings_def)
  next
    case False
    then have "conn_params x = None" by (simp add: domIff)
    moreover have "x \<notin> {''database'', ''user'', ''password'', ''account'', ''warehouse'',
        ''role'', ''schema''}"
      using False d by simp
    ultimately show ?thesis by simp
  qed
  then have "conn_params =
      [''database'' \<mapsto> PyStr ''D'', ''user'' \<mapsto> PyStr ''U'', ''password'' \<mapsto> PyStr ''P'',
       ''account'' \<mapsto> PyStr ''A'', ''warehouse'' \<mapsto> PyStr ''W'', ''role'' \<mapsto> PyStr ''R'',
       ''schema'' \<mapsto> PyStr ''S'']"
    by (rule ext)
  with r show ?thesis by simp
qed

text \<open>
  C9 (amended). If one of the seven required keys is absent from the configuration record,
  no required key before it is absent, and no required field before it is present but
  empty, then \<^verbatim>\<open>get_connection_params\<close> fails with \<^verbatim>\<open>KeyError\<close> for that key, not with
  \<^verbatim>\<open>ImproperlyConfigured\<close>. In every record, \<^verbatim>\<open>ImproperlyConfigured\<close> is raised only when some
  required field is present but empty.
\<close>

theorem absent_key_raises_KeyError:
  "(required_settings = pre @ (key, param, msg) # post \<and>
    absent (settings_dict self) key \<and>
    (\<forall>b\<in>set pre. \<not> absent (settings_dict self) (fst b)) \<and>
    (\<forall>b\<in>set pre. \<not> present_empty (settings_dict self) (fst b))
      \<longrightarrow> get_connection_params self = Inl (KeyError key)) \<and>
   (get_connection_params self' = Inl (ImproperlyConfigured m)
      \<longrightarrow> (\<exists>k\<in>set required_keys. present_empty (settings_dict self') k))"
proof (intro conjI impI)
  assume a: "required_settings = pre @ (key, param, msg) # post \<and>
    absent (settings_dict self) key \<and>
    (\<forall>b\<in>set pre. \<not> absent (settings_dict self) (fst b)) \<and>
    (\<forall>b\<in>set pre. \<not> present_empty (settings_dict self) (fst b))"
  then have "\<forall>b\<in>set pre. non_empty (settings_dict self) (fst b)"
    by (simp add: states_exclusive)
  moreover have "\<not> non_empty (settings_dict self) key"
    using a by (simp add: states_exclusive)
  ultimately have "run_blocks (settings_dict self) (pre @ (key, param, msg) # post) Map.empty =
      Inl (if absent (settings_dict self) key then KeyError key else ImproperlyConfigured msg)"
    by (rule run_blocks_prefix)
  then show "get_connection_params self = Inl (KeyError key)"
    using a by (simp add: get_connection_params_run_blocks)
next
  assume "get_connection_params self' = Inl (ImproperlyConfigured m)"
  then have "\<exists>b\<in>set required_settings. present_empty (settings_dict self') (fst b)"
    unfolding get_connection_params_run_blocks by (rule run_blocks_ImproperlyConfigured)
  then show "\<exists>k\<in>set required_keys. present_empty (settings_dict self') k"
    by (auto simp: required_keys_def)
qed

lemma required_settings_split_PASSWORD:
  "required_settings =
     [(''DATABASE'', ''database'', ''Please provide a username for snowflake!''),
      (''USER'', ''user'', ''Please provide a username for snowflake!'')]
     @ (''PASSWORD'', ''password'', ''Please provide a password for snowflake!'')
     # [(''ACCOUNT'', ''account'', ''Please provide an account for snowflake!''),
        (''WAREHOUSE'', ''warehouse'', ''Please provide a warehouse for snowflake!''),
        (''ROLE'', ''role'', ''Please provide a role for snowflake!''),
        (''SCHEMA'', ''schema'', ''Please provide a schema for snowflake!'')]"
  by (simp add: required_settings_def)

text \<open>
  The example record without \<^verbatim>\<open>PASSWORD\<close>, and the example record with an empty \<^verbatim>\<open>ROLE\<close>.
\<close>

theorem absent_key_raises_KeyError_witness:
  "get_connection_params
     \<lparr>settings_dict = example_settings |` (- {''PASSWORD''}), connection = None\<rparr>
     = Inl (KeyError ''PASSWORD'') \<and>
   present_empty (example_settings(''ROLE'' \<mapsto> PyStr [])) ''ROLE''"
proof -
  let ?self = "\<lparr>settings_dict = example_settings |` (- {''PASSWORD''}), connection = None\<rparr>"
  let ?self' = "\<lparr>settings_dict = example_settings(''ROLE'' \<mapsto> PyStr []), connection = None\<rparr>"
  let ?pre = "[(''DATABASE'', ''database'', ''Please provide a username for snowflake!''),
      (''USER'', ''user'', ''Please provide a username for snowflake!'')]"
  have gone: "absent (settings_dict ?self) ''PASSWORD''"
    by (simp add: absent_def)
  have before1: "\<forall>b\<in>set ?pre. \<not> absent (settings_dict ?self) (fst b)"
    by (simp add: absent_def example_settings_def restrict_map_def)
  have before2: "\<forall>b\<in>set ?pre. \<not> present_empty (settings_dict ?self) (fst b)"
    by (simp add: present_empty_def example_settings_def restrict_map_def)
  have raised: "get_connection_params ?self' =
      Inl (ImproperlyConfigured ''Please provide a role for snowflake!'')"
    by (simp add: get_connection_params_def require_setting_def bind_exn_def
          example_settings_def)
  have both: "get_connection_params ?self = Inl (KeyError ''PASSWORD'') \<and>
      (\<exists>k\<in>set required_keys. present_empty (settings_dict ?self') k)"
    using absent_key_raises_KeyError [of ?pre "''PASSWORD''" "''password''"
        "''Please provide a password for snowflake!''" _ ?self ?self'
        "''Please provide a role for snowflake!''"]
      required_settings_split_PASSWORD gone before1 before2 raised
    by blast
  have "present_empty (example_settings(''ROLE'' \<mapsto> PyStr [])) ''ROLE''"
    by (simp add: present_empty_def)
  with both show ?thesis by simp
qed

text \<open>
  C9 as stated fails: with \<^verbatim>\<open>USER\<close> absent and \<^verbatim>\<open>DATABASE\<close> present but empty, the first
  block raises \<^verbatim>\<open>ImproperlyConfigured\<close> before \<^verbatim>\<open>USER\<close> is subscripted.
\<close>

theorem absent_key_counterexample:
  "absent [''DATABASE'' \<mapsto> PyStr []] ''USER'' \<and>
   get_connection_params
     \<lparr>settings_dict = [''DATABASE'' \<mapsto> PyStr []], connection = None\<rparr>
     = Inl (ImproperlyConfigured ''Please provide a username for snowflake!'')"
  by (simp add: absent_def get_connection_params_def require_setting_def bind_exn_def)

text \<open>
  C10 (amended). \<^verbatim>\<open>get_connection_params\<close> runs its blocks in the order \<^verbatim>\<open>DATABASE\<close>,
  \<^verbatim>\<open>USER\<close>, \<^verbatim>\<open>PASSWORD\<close>, \<^verbatim>\<open>ACCOUNT\<close>, \<^verbatim>\<open>WAREHOUSE\<close>, \<^verbatim>\<open>ROLE\<close>, \<^verbatim>\<open>SCHEMA\<close>. For every
  configuration record with an empty field (so also with more than one) in which no required
  key before the earliest empty field is absent, the single error raised is the
  \<^verbatim>\<open>ImproperlyConfigured\<close> of the block of the earliest empty field, and the fields after it
  are not examined: any record that agrees on the fields up to and including that one, even
  one that lacks the later keys, gives the same result.
\<close>

theorem earliest_empty_field_decides:
  assumes "required_settings = pre @ (key, param, msg) # post"
    and "present_empty (settings_dict self) key"
    and "\<forall>b\<in>set pre. \<not> present_empty (settings_dict self) (fst b)"
    and "\<forall>b\<in>set pre. \<not> absent (settings_dict self) (fst b)"
  shows "required_keys =
           [''DATABASE'', ''USER'', ''PASSWORD'', ''ACCOUNT'', ''WAREHOUSE'', ''ROLE'',
            ''SCHEMA''] \<and>
         get_connection_params self = Inl (ImproperlyConfigured msg) \<and>
         (\<forall>self'. (\<forall>b\<in>set pre. settings_dict self' (fst b) = settings_dict self (fst b)) \<and>
                  settings_dict self' key = settings_dict self key
              \<longrightarrow> get_connection_params self' = get_connection_params self)"
proof -
  have order: "required_keys =
      [''DATABASE'', ''USER'', ''PASSWORD'', ''ACCOUNT'', ''WAREHOUSE'', ''ROLE'', ''SCHEMA'']"
    by (simp add: required_keys_def required_settings_def)
  have pre: "\<forall>b\<in>set pre. non_empty (settings_dict self) (fst b)"
    using assms(3,4) by (simp add: states_exclusive)
  have key: "\<not> non_empty (settings_dict self) key" "\<not> absent (settings_dict self) key"
    using assms(2)
    by (auto simp: non_empty_def present_empty_def absent_def split: option.splits)
  have "run_blocks (settings_dict self) (pre @ (key, param, msg) # post) Map.empty =
      Inl (if absent (settings_dict self) key then KeyError key else ImproperlyConfigured msg)"
    using pre key(1) by (rule run_blocks_prefix)
  then have here: "get_connection_params self = Inl (ImproperlyConfigured msg)"
    using key(2) assms(1) by (simp add: get_connection_params_run_blocks)
  have later_unread: "get_connection_params self' = get_connection_params self"
    if same: "(\<forall>b\<in>set pre. settings_dict self' (fst b) = settings_dict self (fst b)) \<and>
      settings_dict self' key = settings_dict self key" for self' :: wrapper
  proof -
    have pre': "\<forall>b\<in>set pre. non_empty (settings_dict self') (fst b)"
      using pre same by (simp add: non_empty_def)
    have key': "\<not> non_empty (settings_dict self') key" "\<not> absent (settings_dict self') key"
      using key same by (simp_all add: non_empty_def absent_def)
    have "run_blocks (settings_dict self') (pre @ (key, param, msg) # post) Map.empty =
        Inl (if absent (settings_dict self') key then KeyError key
             else ImproperlyConfigured msg)"
      using pre' key'(1) by (rule run_blocks_prefix)
    then have "get_connection_params self' = Inl (ImproperlyConfigured msg)"
      using key'(2) assms(1) by (simp add: get_connection_params_run_blocks)
    with here show ?thesis by simp
  qed
  from order here later_unread show ?thesis by blast
qed

lemma required_settings_split_ACCOUNT:
  "required_settings =
     [(''DATABASE'', ''database'', ''Please provide a username for snowflake!''),
      (''USER'', ''user'', ''Please provide a username for snowflake!''),
      (''PASSWORD'', ''password'', ''Please provide a password for snowflake!'')]
     @ (''ACCOUNT'', ''account'', ''Please provide an account for snowflake!'')
     # [(''WAREHOUSE'', ''warehouse'', ''Please provide a warehouse for snowflake!''),
        (''ROLE'', ''role'', ''Please provide a role for snowflake!''),
        (''SCHEMA'', ''schema'', ''Please provide a schema for snowflake!'')]"
  by (simp add: required_settings_def)

text \<open>
  Three empty fields, \<^verbatim>\<open>ACCOUNT\<close> the earliest; the second record lacks the keys after
  \<^verbatim>\<open>ACCOUNT\<close>.
\<close>

theorem earliest_empty_field_decides_witness:
  "get_connection_params
     \<lparr>settings_dict = example_settings(''ACCOUNT'' \<mapsto> PyStr [], ''ROLE'' \<mapsto> PyNone,
        ''SCHEMA'' \<mapsto> PyStr []), connection = None\<rparr>
     = Inl (ImproperlyConfigured ''Please provide an account for snowflake!'') \<and>
   get_connection_params
     \<lparr>settings_dict = (example_settings(''ACCOUNT'' \<mapsto> PyStr [])) |` (- {''WAREHOUSE'', ''ROLE'',
        ''SCHEMA''}), connection = None\<rparr>
     = get_connection_params
         \<lparr>settings_dict = example_settings(''ACCOUNT'' \<mapsto> PyStr [], ''ROLE'' \<mapsto> PyNone,
            ''SCHEMA'' \<mapsto> PyStr []), connection = None\<rparr>"
proof -
  let ?self = "\<lparr>settings_dict = example_settings(''ACCOUNT'' \<mapsto> PyStr [], ''ROLE'' \<mapsto> PyNone,
        ''SCHEMA'' \<mapsto> PyStr []), connection = None\<rparr>"
  let ?self' = "\<lparr>settings_dict = (example_settings(''ACCOUNT'' \<mapsto> PyStr [])) |`
        (- {''WAREHOUSE'', ''ROLE'', ''SCHEMA''}), connection = None\<rparr>"
  let ?pre = "[(''DATABASE'', ''database'', ''Please provide a username for snowflake!''),
      (''USER'', ''user'', ''Please provide a username for snowflake!''),
      (''PASSWORD'', ''password'', ''Please provide a password for snowflake!'')]"
  have empty: "present_empty (settings_dict ?self) ''ACCOUNT''"
    by (simp add: present_empty_def)
  have before1: "\<forall>b\<in>set ?pre. \<not> present_empty (settings_dict ?self) (fst b)"
    by (simp add: present_empty_def example_settings_def)
  have before2: "\<forall>b\<in>set ?pre. \<not> absent (settings_dict ?self) (fst b)"
    by (simp add: absent_def example_settings_def)
  have same: "(\<forall>b\<in>set ?pre. settings_dict ?self' (fst b) = settings_dict ?self (fst b)) \<and>
      settings_dict ?self' ''ACCOUNT'' = settings_dict ?self ''ACCOUNT''"
    by (simp add: example_settings_def restrict_map_def)
  show ?thesis
    using earliest_empty_field_decides [OF required_settings_split_ACCOUNT empty before1 before2]
      same
    by blast
qed

text \<open>
  C10 as stated fails: with \<^verbatim>\<open>USER\<close> and \<^verbatim>\<open>PASSWORD\<close> empty and \<^verbatim>\<open>DATABASE\<close> absent, the
  error raised is the \<^verbatim>\<open>KeyError\<close> for \<^verbatim>\<open>DATABASE\<close>, not an error of the earliest empty field.
\<close>

theorem earliest_empty_field_counterexample:
  "present_empty [''USER'' \<mapsto> PyStr [], ''PASSWORD'' \<mapsto> PyStr []] ''USER'' \<and>
   present_empty [''USER'' \<mapsto> PyStr [], ''PASSWORD'' \<mapsto> PyStr []] ''PASSWORD'' \<and>
   get_connection_params
     \<lparr>settings_dict = [''USER'' \<mapsto> PyStr [], ''PASSWORD'' \<mapsto> PyStr []], connection = None\<rparr>
     = Inl (KeyError ''DATABASE'')"
  by (simp add: present_empty_def get_connection_params_def require_setting_def bind_exn_def)

section \<open>Properties of the liveness check\<close>

lemma is_usable_never_raises_Database_Error:
  "fst (is_usable Database self s) \<noteq> Inl (Database_Error a)"
proof (cases "is_usable_probe Database self s")
  case (Pair r s')
  show ?thesis
  proof (cases r)
    case (Inl e)
    then show ?thesis
      using Pair by (cases e) (simp_all add: is_usable_def)
  next
    case (Inr u)
    then show ?thesis
      using Pair by (simp add: is_usable_def)
  qed
qed

lemma is_usable_probe_raising:
  assumes "connection self = Some c"
    and "drv_cursor Database (handle c) [] [] (driver_state s) = (Inr cur, d1)"
    and "drv_execute Database cur ''SELECT current_version()'' d1 = (Inl e, d2)"
    and "drv_cursor_exit Database cur (Some e) d2 = (Inr False, d3)"
  shows "is_usable_probe Database self s =
           (Inl e, s\<lparr>driver_state := d3,
              trace := trace s @ [OpenCursor (handle c) [] [],
                Execute cur ''SELECT current_version()'', CursorExit cur (Some e)]\<rparr>)"
  using assms by (simp add: is_usable_probe_def invoke_def)

lemma is_usable_probe_returning:
  assumes "connection self = Some c"
    and "drv_cursor Database (handle c) [] [] (driver_state s) = (Inr cur, d1)"
    and "drv_execute Database cur ''SELECT current_version()'' d1 = (Inr u, d2)"
    and "drv_cursor_exit Database cur None d2 = (Inr suppress, d3)"
  shows "is_usable_probe Database self s =
           (Inr (), s\<lparr>driver_state := d3,
              trace := trace s @ [OpenCursor (handle c) [] [],
                Execute cur ''SELECT current_version()'', CursorExit cur None]\<rparr>)"
  using assms by (simp add: is_usable_probe_def invoke_def)

text \<open>
  C4. \<^verbatim>\<open>is_usable\<close> never propagates a driver error: it returns false when the guarded block
  raises one and true when the block completes. On a live connection whose \<^verbatim>\<open>cursor()\<close>
  returns a cursor, the adapter calls \<^verbatim>\<open>cursor()\<close> with no arguments, executes the one
  statement \<^verbatim>\<open>SELECT current_version()\<close> and leaves the cursor's scope; it returns false
  when the statement raises a driver error and true when the statement succeeds (the
  cursor's \<^verbatim>\<open>__exit__\<close> returning without suppressing).
\<close>

theorem is_usable_absorbs_driver_errors:
  "(\<forall>a. fst (is_usable Database self s) \<noteq> Inl (Database_Error a)) \<and>
   (\<forall>a. fst (is_usable_probe Database self s) = Inl (Database_Error a)
      \<longrightarrow> fst (is_usable Database self s) = Inr False) \<and>
   (fst (is_usable_probe Database self s) = Inr ()
      \<longrightarrow> fst (is_usable Database self s) = Inr True) \<and>
   (connection self = Some c \<and>
    drv_cursor Database (handle c) [] [] (driver_state s) = (Inr cur, d1) \<and>
    drv_execute Database cur ''SELECT current_version()'' d1 = (Inl (Database_Error a), d2) \<and>
    drv_cursor_exit Database cur (Some (Database_Error a)) d2 = (Inr False, d3)
      \<longrightarrow> is_usable Database self s =
            (Inr False, s\<lparr>driver_state := d3,
               trace := trace s @ [OpenCursor (handle c) [] [],
                 Execute cur ''SELECT current_version()'',
                 CursorExit cur (Some (Database_Error a))]\<rparr>)) \<and>
   (connection self = Some c \<and>
    drv_cursor Database (handle c) [] [] (driver_state s) = (Inr cur, d1) \<and>
    drv_execute Database cur ''SELECT current_version()'' d1 = (Inr (), d2') \<and>
    drv_cursor_exit Database cur None d2' = (Inr suppress, d3')
      \<longrightarrow> is_usable Database self s =
            (Inr True, s\<lparr>driver_state := d3',
               trace := trace s @ [OpenCursor (handle c) [] [],
                 Execute cur ''SELECT current_version()'', CursorExit cur None]\<rparr>))"
proof (intro conjI allI impI)
  fix a show "fst (is_usable Database self s) \<noteq> Inl (Database_Error a)"
    by (rule is_usable_never_raises_Database_Error)
next
  fix a assume "fst (is_usable_probe Database self s) = Inl (Database_Error a)"
  then show "fst (is_usable Database self s) = Inr False"
    by (cases "is_usable_probe Database self s") (simp add: is_usable_def)
next
  assume "fst (is_usable_probe Database self s) = Inr ()"
  then show "fst (is_usable Database self s) = Inr True"
    by (cases "is_usable_probe Database self s") (simp add: is_usable_def)
next
  assume "connection self = Some c \<and>
    drv_cursor Database (handle c) [] [] (driver_state s) = (Inr cur, d1) \<and>
    drv_execute Database cur ''SELECT current_version()'' d1 = (Inl (Database_Error a), d2) \<and>
    drv_cursor_exit Database cur (Some (Database_Error a)) d2 = (Inr False, d3)"
  then have "is_usable_probe Database self s =
      (Inl (Database_Error a), s\<lparr>driver_state := d3,
         trace := trace s @ [OpenCursor (handle c) [] [],
           Execute cur ''SELECT current_version()'',
           CursorExit cur (Some (Database_Error a))]\<rparr>)"
    by (simp add: is_usable_probe_raising)
  then show "is_usable Database self s =
      (Inr False, s\<lparr>driver_state := d3,
         trace := trace s @ [OpenCursor (handle c) [] [],
           Execute cur ''SELECT current_version()'',
           CursorExit cur (Some (Database_Error a))]\<rparr>)"
    by (simp add: is_usable_def)
next
  assume "connection self = Some c \<and>
    drv_cursor Database (handle c) [] [] (driver_state s) = (Inr cur, d1) \<and>
    drv_execute Database cur ''SELECT current_version()'' d1 = (Inr (), d2') \<and>
    drv_cursor_exit Database cur None d2' = (Inr suppress, d3')"
  then have "is_usable_probe Database self s =
      (Inr (), s\<lparr>driver_state := d3',
         trace := trace s @ [OpenCursor (handle c) [] [],
           Execute cur ''SELECT current_version()'', CursorExit cur None]\<rparr>)"
    by (simp add: is_usable_probe_returning)
  then show "is_usable Database self s =
      (Inr True, s\<lparr>driver_state := d3',
         trace := trace s @ [OpenCursor (handle c) [] [],
           Execute cur ''SELECT current_version()'', CursorExit cur None]\<rparr>)"
    by (simp add: is_usable_def)
qed

text \<open>A driver whose probe statement fails, and one whose probe statement succeeds.\<close>

theorem is_usable_absorbs_driver_errors_witness:
  "is_usable (scripted_driver (Inl (Database_Error ''connection lost'')) (Inr ()) (Inr PyNone))
     live_wrapper fresh_world =
     (Inr False, \<lparr>driver_state = 3,
        trace = [OpenCursor 7 [] [], Execute 0 ''SELECT current_version()'',
          CursorExit 0 (Some (Database_Error ''connection lost''))],
        running_event_loop = False\<rparr>) \<and>
   is_usable (scripted_driver (Inr ()) (Inr ()) (Inr PyNone)) live_wrapper fresh_world =
     (Inr True, \<lparr>driver_state = 3,
        trace = [OpenCursor 7 [] [], Execute 0 ''SELECT current_version()'', CursorExit 0 None],
        running_event_loop = False\<rparr>)"
proof -
  let ?bad = "scripted_driver (Inl (Database_Error ''connection lost'')) (Inr ()) (Inr PyNone)"
  let ?good = "scripted_driver (Inr ()) (Inr ()) (Inr PyNone)"
  have "is_usable ?bad live_wrapper fresh_world =
      (Inr False, fresh_world\<lparr>driver_state := 3,
         trace := trace fresh_world @ [OpenCursor (handle \<lparr>handle = 7, autocommit = False\<rparr>) [] [],
           Execute 0 ''SELECT current_version()'',
           CursorExit 0 (Some (Database_Error ''connection lost''))]\<rparr>)"
    using is_usable_absorbs_driver_errors [of ?bad live_wrapper fresh_world
        "\<lparr>handle = 7, autocommit = False\<rparr>" 0 1 "''connection lost''" 2 3]
    by (simp add: scripted_driver_def live_wrapper_def fresh_world_def)
  moreover have "is_usable ?good live_wrapper fresh_world =
      (Inr True, fresh_world\<lparr>driver_state := 3,
         trace := trace fresh_world @ [OpenCursor (handle \<lparr>handle = 7, autocommit = False\<rparr>) [] [],
           Execute 0 ''SELECT current_version()'', CursorExit 0 None]\<rparr>)"
    using is_usable_absorbs_driver_errors [of ?good live_wrapper fresh_world
        "\<lparr>handle = 7, autocommit = False\<rparr>" 0 1 _ _ _ 2 False 3]
    by (simp add: scripted_driver_def live_wrapper_def fresh_world_def)
  ultimately show ?thesis
    by (simp add: fresh_world_def)
qed

section \<open>Properties of the autocommit toggle\<close>

text \<open>
  C5. If the driver raises a driver error while \<^verbatim>\<open>_set_autocommit\<close> assigns the connection's
  autocommit flag, the error leaves \<^verbatim>\<open>_set_autocommit\<close> as the host framework's database
  error with the same arguments; no driver error ever escapes \<^verbatim>\<open>_set_autocommit\<close>.
\<close>

theorem set_autocommit_translates_driver_error:
  "(connection self = Some c \<and>
    fst (drv_set_autocommit Database (handle c) b (driver_state s)) = Inl (Database_Error args)
      \<longrightarrow> fst (set_autocommit Database self b s) = Inl (WrappedDatabaseError args)) \<and>
   (\<forall>a. fst (set_autocommit Database self b s) \<noteq> Inl (Database_Error a))"
proof (intro conjI allI impI)
  assume a: "connection self = Some c \<and>
    fst (drv_set_autocommit Database (handle c) b (driver_state s)) = Inl (Database_Error args)"
  then show "fst (set_autocommit Database self b s) = Inl (WrappedDatabaseError args)"
    by (cases "drv_set_autocommit Database (handle c) b (driver_state s)")
       (simp add: set_autocommit_def wrap_database_errors_def invoke_def)
next
  fix a
  have translated: "translate_driver_error e \<noteq> Database_Error a" for e
    by (cases e) simp_all
  show "fst (set_autocommit Database self b s) \<noteq> Inl (Database_Error a)"
    by (auto simp: set_autocommit_def wrap_database_errors_def translated
          split: prod.splits sum.splits)
qed

text \<open>A driver that refuses the assignment.\<close>

theorem set_autocommit_translates_driver_error_witness:
  "fst (set_autocommit
          (scripted_driver (Inr ()) (Inl (Database_Error ''session expired'')) (Inr PyNone))
          live_wrapper True fresh_world)
     = Inl (WrappedDatabaseError ''session expired'')"
  using set_autocommit_translates_driver_error
    [of live_wrapper "\<lparr>handle = 7, autocommit = False\<rparr>"
      "scripted_driver (Inr ()) (Inl (Database_Error ''session expired'')) (Inr PyNone)"
      True fresh_world "''session expired''"]
  by (simp add: scripted_driver_def live_wrapper_def fresh_world_def)

text \<open>
  C6. For every boolean \<^verbatim>\<open>b\<close>, when the driver raises no error during the assignment,
  \<^verbatim>\<open>_set_autocommit(b)\<close> makes exactly one call on the driver, the assignment of \<^verbatim>\<open>b\<close> to
  the autocommit flag of the adapter's own connection, leaves the driver in the state that
  assignment produced, and returns normally; the connection's autocommit attribute then
  reads \<^verbatim>\<open>b\<close>, and nothing else of the adapter has changed.
\<close>

theorem set_autocommit_round_trip:
  assumes "connection self = Some c"
    and "fst (drv_set_autocommit Database (handle c) b (driver_state s)) = Inr ()"
  shows "set_autocommit Database self b s =
           (Inr (self\<lparr>connection := Some (c\<lparr>autocommit := b\<rparr>)\<rparr>),
            s\<lparr>driver_state := snd (drv_set_autocommit Database (handle c) b (driver_state s)),
              trace := trace s @ [AssignAutocommit (handle c) b]\<rparr>) \<and>
         (\<exists>self'. fst (set_autocommit Database self b s) = Inr self' \<and>
            map_option autocommit (connection self') = Some b \<and>
            map_option handle (connection self') = Some (handle c) \<and>
            settings_dict self' = settings_dict self)"
proof -
  have whole: "set_autocommit Database self b s =
      (Inr (self\<lparr>connection := Some (c\<lparr>autocommit := b\<rparr>)\<rparr>),
       s\<lparr>driver_state := snd (drv_set_autocommit Database (handle c) b (driver_state s)),
         trace := trace s @ [AssignAutocommit (handle c) b]\<rparr>)"
    using assms
    by (cases "drv_set_autocommit Database (handle c) b (driver_state s)")
       (simp add: set_autocommit_def wrap_database_errors_def invoke_def)
  then show ?thesis by simp
qed

text \<open>
  Switching autocommit on, then off again: each call is one assignment on connection 7.
\<close>

theorem set_autocommit_round_trip_witness:
  "set_autocommit (scripted_driver (Inr ()) (Inr ()) (Inr PyNone)) live_wrapper True fresh_world
     = (Inr (live_wrapper\<lparr>connection := Some \<lparr>handle = 7, autocommit = True\<rparr>\<rparr>),
        \<lparr>driver_state = 1, trace = [AssignAutocommit 7 True], running_event_loop = False\<rparr>) \<and>
   set_autocommit (scripted_driver (Inr ()) (Inr ()) (Inr PyNone))
       (live_wrapper\<lparr>connection := Some \<lparr>handle = 7, autocommit = True\<rparr>\<rparr>) False fresh_world
     = (Inr live_wrapper,
        \<lparr>driver_state = 1, trace = [AssignAutocommit 7 False], running_event_loop = False\<rparr>)"
proof -
  let ?D = "scripted_driver (Inr ()) (Inr ()) (Inr PyNone)"
  let ?on = "live_wrapper\<lparr>connection := Some \<lparr>handle = 7, autocommit = True\<rparr>\<rparr>"
  have c1: "connection live_wrapper = Some \<lparr>handle = 7, autocommit = False\<rparr>"
    by (simp add: live_wrapper_def)
  have c2: "connection ?on = Some \<lparr>handle = 7, autocommit = True\<rparr>"
    by simp
  have ok1: "fst (drv_set_autocommit ?D (handle \<lparr>handle = 7, autocommit = False\<rparr>) True
      (driver_state fresh_world)) = Inr ()"
    by (simp add: scripted_driver_def)
  have ok2: "fst (drv_set_autocommit ?D (handle \<lparr>handle = 7, autocommit = True\<rparr>) False
      (driver_state fresh_world)) = Inr ()"
    by (simp add: scripted_driver_def)
  have on: "set_autocommit ?D live_wrapper True fresh_world =
      (Inr (live_wrapper\<lparr>connection :=
          Some (\<lparr>handle = 7, autocommit = False\<rparr>\<lparr>autocommit := True\<rparr>)\<rparr>),
       fresh_world\<lparr>driver_state := snd (drv_set_autocommit ?D
            (handle \<lparr>handle = 7, autocommit = False\<rparr>) True (driver_state fresh_world)),
         trace := trace fresh_world @
            [AssignAutocommit (handle \<lparr>handle = 7, autocommit = False\<rparr>) True]\<rparr>)"
    using set_autocommit_round_trip [OF c1 ok1] by blast
  have off: "set_autocommit ?D ?on False fresh_world =
      (Inr (?on\<lparr>connection :=
          Some (\<lparr>handle = 7, autocommit = True\<rparr>\<lparr>autocommit := False\<rparr>)\<rparr>),
       fresh_world\<lparr>driver_state := snd (drv_set_autocommit ?D
            (handle \<lparr>handle = 7, autocommit = True\<rparr>) False (driver_state fresh_world)),
         trace := trace fresh_world @
            [AssignAutocommit (handle \<lparr>handle = 7, autocommit = True\<rparr>) False]\<rparr>)"
    using set_autocommit_round_trip [OF c2 ok2] by blast
  show ?thesis
    unfolding on off by (simp add: scripted_driver_def fresh_world_def live_wrapper_def)
qed

section \<open>Properties of the cursor factory\<close>

text \<open>
  C8. For every value of \<^verbatim>\<open>name\<close>, \<^verbatim>\<open>create_cursor\<close> behaves as it does without a name.
  On a live connection, outside an event loop, it makes exactly one call on the driver,
  \<^verbatim>\<open>cursor()\<close> with no positional and no keyword arguments, and returns what that call
  returns (or raises what it raises) unchanged.
\<close>

theorem create_cursor_ignores_name:
  "create_cursor Database self name s = create_cursor Database self PyNone s \<and>
   (connection self = Some c \<and> \<not> running_event_loop s
      \<longrightarrow> fst (create_cursor Database self name s) =
            fst (drv_cursor Database (handle c) [] [] (driver_state s)) \<and>
          driver_state (snd (create_cursor Database self name s)) =
            snd (drv_cursor Database (handle c) [] [] (driver_state s)) \<and>
          trace (snd (create_cursor Database self name s)) =
            trace s @ [OpenCursor (handle c) [] []])"
proof -
  have unused: "create_cursor Database self name s = create_cursor Database self PyNone s"
    by (simp add: create_cursor_def)
  have "create_cursor Database self name s =
      (fst (drv_cursor Database (handle c) [] [] (driver_state s)),
       s\<lparr>driver_state := snd (drv_cursor Database (handle c) [] [] (driver_state s)),
         trace := trace s @ [OpenCursor (handle c) [] []]\<rparr>)"
    if "connection self = Some c \<and> \<not> running_event_loop s"
    using that
    by (cases "drv_cursor Database (handle c) [] [] (driver_state s)")
       (simp add: create_cursor_def async_unsafe_def invoke_def)
  with unused show ?thesis by simp
qed

text \<open>A named request gets the cursor an unnamed request gets.\<close>

theorem create_cursor_ignores_name_witness:
  "create_cursor (scripted_driver (Inr ()) (Inr ()) (Inr PyNone)) live_wrapper
     (PyStr ''my_cursor'') fresh_world
     = create_cursor (scripted_driver (Inr ()) (Inr ()) (Inr PyNone)) live_wrapper PyNone
         fresh_world \<and>
   fst (create_cursor (scripted_driver (Inr ()) (Inr ()) (Inr PyNone)) live_wrapper
          (PyStr ''my_cursor'') fresh_world) = Inr 0 \<and>
   trace (snd (create_cursor (scripted_driver (Inr ()) (Inr ()) (Inr PyNone)) live_wrapper
          (PyStr ''my_cursor'') fresh_world)) = [OpenCursor 7 [] []]"
proof -
  have c: "connection live_wrapper = Some \<lparr>handle = 7, autocommit = False\<rparr>"
    by (simp add: live_wrapper_def)
  have sync: "\<not> running_event_loop fresh_world"
    by (simp add: fresh_world_def)
  let ?D = "scripted_driver (Inr ()) (Inr ()) (Inr PyNone)"
  let ?name = "PyStr ''my_cursor''"
  have same: "create_cursor ?D live_wrapper ?name fresh_world =
      create_cursor ?D live_wrapper PyNone fresh_world"
    and result: "fst (create_cursor ?D live_wrapper ?name fresh_world) =
      fst (drv_cursor ?D (handle \<lparr>handle = 7, autocommit = False\<rparr>) [] []
        (driver_state fresh_world))"
    and calls: "trace (snd (create_cursor ?D live_wrapper ?name fresh_world)) =
      trace fresh_world @ [OpenCursor (handle \<lparr>handle = 7, autocommit = False\<rparr>) [] []]"
    using create_cursor_ignores_name
        [of ?D live_wrapper ?name fresh_world "\<lparr>handle = 7, autocommit = False\<rparr>"] c sync
    by blast+
  have "fst (drv_cursor ?D (handle \<lparr>handle = 7, autocommit = False\<rparr>) [] []
      (driver_state fresh_world)) = Inr 0"
    by (simp add: scripted_driver_def fresh_world_def)
  moreover have "trace fresh_world @
      [OpenCursor (handle \<lparr>handle = 7, autocommit = False\<rparr>) [] []] = [OpenCursor 7 [] []]"
    by (simp add: fresh_world_def)
  ultimately show ?thesis
    unfolding result calls using same by simp
qed

section \<open>Properties of the debug cursor wrapper\<close>

text \<open>
  C7. \<^verbatim>\<open>copy_expert\<close> and \<^verbatim>\<open>copy_to\<close> of the debug cursor wrapper call the wrapped cursor's
  operation of the same name once, with the arguments they were given, and return or raise
  what it returns or raises. Around that call the debug scope is entered once, before it,
  and left once, after it, whatever its outcome; the scope carries the given SQL for
  \<^verbatim>\<open>copy_expert\<close> and \<^verbatim>\<open>COPY <table> TO STDOUT\<close> for \<^verbatim>\<open>copy_to\<close>.
\<close>

theorem copy_operations_forward:
  "fst (copy_expert Database self sql file args s) =
     fst (drv_copy_expert Database (cursor self) sql file args (driver_state s)) \<and>
   driver_state (snd (copy_expert Database self sql file args s)) =
     snd (drv_copy_expert Database (cursor self) sql file args (driver_state s)) \<and>
   trace (snd (copy_expert Database self sql file args s)) =
     trace s @ [DebugEnter sql, CopyExpert (cursor self) sql file args, DebugExit sql] \<and>
   fst (copy_to Database self file table args kwargs s) =
     fst (drv_copy_to Database (cursor self) file table args kwargs (driver_state s)) \<and>
   driver_state (snd (copy_to Database self file table args kwargs s)) =
     snd (drv_copy_to Database (cursor self) file table args kwargs (driver_state s)) \<and>
   trace (snd (copy_to Database self file table args kwargs s)) =
     trace s @ [DebugEnter (''COPY '' @ table @ '' TO STDOUT''),
       CopyTo (cursor self) file table args kwargs,
       DebugExit (''COPY '' @ table @ '' TO STDOUT'')]"
proof -
  have expert: "copy_expert Database self sql file args s =
      (fst (drv_copy_expert Database (cursor self) sql file args (driver_state s)),
       s\<lparr>driver_state := snd (drv_copy_expert Database (cursor self) sql file args
            (driver_state s)),
         trace := trace s @ [DebugEnter sql, CopyExpert (cursor self) sql file args,
            DebugExit sql]\<rparr>)"
    by (cases "drv_copy_expert Database (cursor self) sql file args (driver_state s)")
       (simp add: copy_expert_def debug_sql_def invoke_def)
  have to: "copy_to Database self file table args kwargs s =
      (fst (drv_copy_to Database (cursor self) file table args kwargs (driver_state s)),
       s\<lparr>driver_state := snd (drv_copy_to Database (cursor self) file table args kwargs
            (driver_state s)),
         trace := trace s @ [DebugEnter (''COPY '' @ table @ '' TO STDOUT''),
            CopyTo (cursor self) file table args kwargs,
            DebugExit (''COPY '' @ table @ '' TO STDOUT'')]\<rparr>)"
    by (cases "drv_copy_to Database (cursor self) file table args kwargs (driver_state s)")
       (simp add: copy_to_def debug_sql_def invoke_def)
  show ?thesis
    unfolding expert to by simp
qed

text \<open>
  An expert copy that the driver fails, and a table copy with extra arguments.
\<close>

theorem copy_operations_forward_witness:
  "fst (copy_expert (scripted_driver (Inr ()) (Inr ()) (Inl (Database_Error ''copy failed'')))
          \<lparr>cursor = 4\<rparr> ''COPY t FROM STDIN'' (PyObj 1) [PyInt 8192] fresh_world)
     = Inl (Database_Error ''copy failed'') \<and>
   trace (snd (copy_expert
          (scripted_driver (Inr ()) (Inr ()) (Inl (Database_Error ''copy failed'')))
          \<lparr>cursor = 4\<rparr> ''COPY t FROM STDIN'' (PyObj 1) [PyInt 8192] fresh_world))
     = [DebugEnter ''COPY t FROM STDIN'',
        CopyExpert 4 ''COPY t FROM STDIN'' (PyObj 1) [PyInt 8192],
        DebugExit ''COPY t FROM STDIN''] \<and>
   fst (copy_to (scripted_driver (Inr ()) (Inr ()) (Inr PyNone))
          \<lparr>cursor = 4\<rparr> (PyObj 1) ''t'' [PyStr '',''] [(''null'', PyStr [])] fresh_world)
     = Inr PyNone \<and>
   trace (snd (copy_to (scripted_driver (Inr ()) (Inr ()) (Inr PyNone))
          \<lparr>cursor = 4\<rparr> (PyObj 1) ''t'' [PyStr '',''] [(''null'', PyStr [])] fresh_world))
     = [DebugEnter ''COPY t TO STDOUT'',
        CopyTo 4 (PyObj 1) ''t'' [PyStr '',''] [(''null'', PyStr [])],
        DebugExit ''COPY t TO STDOUT'']"
  using copy_operations_forward
      [of "scripted_driver (Inr ()) (Inr ()) (Inl (Database_Error ''copy failed''))"
        "\<lparr>cursor = 4\<rparr>" "''COPY t FROM STDIN''" "PyObj 1" "[PyInt 8192]" fresh_world]
    copy_operations_forward
      [of "scripted_driver (Inr ()) (Inr ()) (Inr PyNone)" "\<lparr>cursor = 4\<rparr>" _ "PyObj 1"
        "[PyStr '','']" fresh_world "''t''" "[(''null'', PyStr [])]"]
  by (simp add: scripted_driver_def fresh_world_def)

end
